theory Spec2Isabelle
  imports Complex_Main "HOL-Library.Word" "HOL-Library.Log_Nat"
begin

unbundle bit_operations_syntax

section \<open>Python values used by \<open>dollar_cost_average.py\<close>\<close>

subsection \<open>Exceptions\<close>

text \<open>
  The six \<open>assert\<close> statements of the source, in line order: line 63 (pair listed),
  67 and 68 (quote size against its minimum and maximum), 139 (increment positive),
  82 and 83 (base size against its minimum and maximum). An \<open>AssertionError\<close> carries
  the statement that raised it, as the traceback of the Python exception does.
\<close>

datatype assertion =
  PairListed | QuoteSizeMin | QuoteSizeMax | IncrementPositive | BaseSizeMin | BaseSizeMax

datatype error =
  AssertionError assertion
  | TypeError | KeyError | ValueError | OverflowError | ZeroDivisionError
  | JSONDecodeError | OSError

subsection \<open>Floats: IEEE 754 binary64, round to nearest, ties to even\<close>

text \<open>
  A Python \<open>float\<close> is a binary64 value. A finite one is the rational it denotes
  (\<open>Fin q\<close>, with \<open>Fin 0\<close> for \<open>0.0\<close> and \<open>NegZero\<close> for \<open>-0.0\<close>); every arithmetic
  operation computes the exact rational result and rounds it with \<open>fl\<close>.
\<close>

datatype pyfloat = Fin rat | NegZero | PInf | NInf | NaN

definition pow2 :: "int \<Rightarrow> rat" where
  "pow2 e = (if 0 \<le> e then of_int (2 ^ nat e) else 1 / of_int (2 ^ nat (- e)))"

definition pow10 :: "int \<Rightarrow> rat" where
  "pow10 e = (if 0 \<le> e then of_int (10 ^ nat e) else 1 / of_int (10 ^ nat (- e)))"

text \<open>\<open>ilog2 q\<close> is \<open>\<lfloor>log\<^sub>2 q\<rfloor>\<close> for \<open>q > 0\<close>, from the bit lengths of numerator and denominator.\<close>

definition ilog2 :: "rat \<Rightarrow> int" where
  "ilog2 q =
     (let (n, d) = quotient_of q;
          e = bitlen n - bitlen d
      in if pow2 e \<le> q then e else e - 1)"

definition round_half_even :: "rat \<Rightarrow> int" where
  "round_half_even q =
     (let f = \<lfloor>q\<rfloor>; r = q - of_int f
      in if r < 1 / 2 then f
         else if 1 / 2 < r then f + 1
         else if even f then f else f + 1)"

text \<open>
  \<open>fl q\<close>: the binary64 value nearest to the rational \<open>q\<close>. The unit in the last place
  is \<open>2 ^ u\<close> with \<open>u = max (\<lfloor>log\<^sub>2 |q|\<rfloor> - 52) (-1074)\<close> (53 significant bits, subnormals
  below \<open>2 ^ -1022\<close>); a result of magnitude \<open>2 ^ 1024\<close> or more, that is \<open>m * 2 ^ u\<close>
  with \<open>u > 971\<close> or with \<open>u = 971\<close> and \<open>m = 2 ^ 53\<close>, is an infinity, and a nonzero
  \<open>q\<close> that rounds to zero keeps its sign.
\<close>

definition fzero :: "bool \<Rightarrow> pyfloat" where
  "fzero neg = (if neg then NegZero else Fin 0)"

definition fl :: "rat \<Rightarrow> pyfloat" where
  "fl q =
     (if q = 0 then Fin 0
      else let a = \<bar>q\<bar>;
               u = max (ilog2 a - 52) (- 1074);
               m = round_half_even (a / pow2 u);
               r = of_int m * pow2 u
           in if 971 < u \<or> (u = 971 \<and> 9007199254740992 \<le> m)
              then (if q < 0 then NInf else PInf)
              else if m = 0 then fzero (q < 0)
              else Fin (if q < 0 then - r else r))"

fun fsign :: "pyfloat \<Rightarrow> bool" where
  "fsign (Fin q) = (q < 0)"
| "fsign NegZero = True"
| "fsign NInf = True"
| "fsign PInf = False"
| "fsign NaN = False"

fun fmag :: "pyfloat \<Rightarrow> rat" where
  "fmag (Fin q) = q"
| "fmag _ = 0"

fun is_inf :: "pyfloat \<Rightarrow> bool" where
  "is_inf PInf = True"
| "is_inf NInf = True"
| "is_inf _ = False"

fun is_zero :: "pyfloat \<Rightarrow> bool" where
  "is_zero (Fin q) = (q = 0)"
| "is_zero NegZero = True"
| "is_zero _ = False"

definition finf :: "bool \<Rightarrow> pyfloat" where
  "finf neg = (if neg then NInf else PInf)"

text \<open>\<open>x + y\<close> on floats. Python raises nothing here.\<close>

definition fadd :: "pyfloat \<Rightarrow> pyfloat \<Rightarrow> pyfloat" where
  "fadd x y =
     (if x = NaN \<or> y = NaN then NaN
      else if is_inf x then (if is_inf y \<and> x \<noteq> y then NaN else x)
      else if is_inf y then y
      else if x = NegZero \<and> y = NegZero then NegZero
      else fl (fmag x + fmag y))"

text \<open>Unary minus on floats.\<close>

fun fneg :: "pyfloat \<Rightarrow> pyfloat" where
  "fneg (Fin q) = (if q = 0 then NegZero else Fin (- q))"
| "fneg NegZero = Fin 0"
| "fneg PInf = NInf"
| "fneg NInf = PInf"
| "fneg NaN = NaN"

text \<open>\<open>x * y\<close> on floats. Python raises nothing here (an overflow is an infinity).\<close>

definition fmul :: "pyfloat \<Rightarrow> pyfloat \<Rightarrow> pyfloat" where
  "fmul x y =
     (if x = NaN \<or> y = NaN then NaN
      else if is_inf x \<or> is_inf y then
        (if is_zero x \<or> is_zero y then NaN else finf (fsign x \<noteq> fsign y))
      else if is_zero x \<or> is_zero y then fzero (fsign x \<noteq> fsign y)
      else fl (fmag x * fmag y))"

text \<open>\<open>x / y\<close> on floats: Python raises \<open>ZeroDivisionError\<close> for a zero divisor, whatever \<open>x\<close>.\<close>

definition fdiv :: "pyfloat \<Rightarrow> pyfloat \<Rightarrow> error + pyfloat" where
  "fdiv x y =
     (if is_zero y then Inl ZeroDivisionError
      else Inr (if x = NaN \<or> y = NaN then NaN
                else if is_inf x then (if is_inf y then NaN else finf (fsign x \<noteq> fsign y))
                else if is_inf y then fzero (fsign x \<noteq> fsign y)
                else if is_zero x then fzero (fsign x \<noteq> fsign y)
                else fl (fmag x / fmag y)))"

text \<open>Comparisons: false whenever an operand is NaN; \<open>-0.0\<close> equals \<open>0.0\<close>.\<close>

fun fclass :: "pyfloat \<Rightarrow> int" where
  "fclass NInf = - 1"
| "fclass PInf = 1"
| "fclass _ = 0"

definition flt :: "pyfloat \<Rightarrow> pyfloat \<Rightarrow> bool" where
  "flt x y = (x \<noteq> NaN \<and> y \<noteq> NaN \<and>
     (fclass x < fclass y \<or> (fclass x = fclass y \<and> fmag x < fmag y)))"

definition fle :: "pyfloat \<Rightarrow> pyfloat \<Rightarrow> bool" where
  "fle x y = (x \<noteq> NaN \<and> y \<noteq> NaN \<and>
     (fclass x < fclass y \<or> (fclass x = fclass y \<and> fmag x \<le> fmag y)))"

definition fgt :: "pyfloat \<Rightarrow> pyfloat \<Rightarrow> bool" where
  "fgt x y = flt y x"

definition fge :: "pyfloat \<Rightarrow> pyfloat \<Rightarrow> bool" where
  "fge x y = fle y x"

definition feq :: "pyfloat \<Rightarrow> pyfloat \<Rightarrow> bool" where
  "feq x y = (x \<noteq> NaN \<and> y \<noteq> NaN \<and> fclass x = fclass y \<and> fmag x = fmag y)"

text \<open>\<open>math.floor\<close>: \<open>OverflowError\<close> on an infinity, \<open>ValueError\<close> on NaN.\<close>

fun math_floor :: "pyfloat \<Rightarrow> error + int" where
  "math_floor (Fin q) = Inr \<lfloor>q\<rfloor>"
| "math_floor NegZero = Inr 0"
| "math_floor PInf = Inl OverflowError"
| "math_floor NInf = Inl OverflowError"
| "math_floor NaN = Inl ValueError"

text \<open>
  \<open>round(x, ndigits)\<close> on a float (CPython's \<open>float.__round__\<close> with \<open>double_round\<close>):
  infinities and NaN round to themselves; beyond 323 digits \<open>x\<close> is returned, below -308
  a zero of the sign of \<open>x\<close>; otherwise the exact value of \<open>x\<close> is rounded to the nearest
  multiple of \<open>10 ^ -ndigits\<close>, ties to even, that decimal is converted back to the nearest
  float, and \<open>OverflowError\<close> is raised if this is an infinity.
\<close>

definition double_round :: "rat \<Rightarrow> int \<Rightarrow> error + pyfloat" where
  "double_round q ndigits =
     (let m = round_half_even (\<bar>q\<bar> * pow10 ndigits);
          r = of_int m / pow10 ndigits
      in if m = 0 then Inr (fzero (q < 0))
         else (case fl (if q < 0 then - r else r) of
                 PInf \<Rightarrow> Inl OverflowError
               | NInf \<Rightarrow> Inl OverflowError
               | y \<Rightarrow> Inr y))"

fun py_round :: "pyfloat \<Rightarrow> int \<Rightarrow> error + pyfloat" where
  "py_round (Fin q) ndigits =
     (if 323 < ndigits then Inr (Fin q)
      else if ndigits < - 308 then Inr (fzero (q < 0))
      else double_round q ndigits)"
| "py_round x ndigits = Inr x"

subsection \<open>Strings, integers as text, bytes\<close>

text \<open>
  A Python \<open>str\<close> is modelled as a \<open>string\<close> whose characters are the code points below
  256; \<open>utf8\<close> is \<open>str.encode('utf-8')\<close> on these (one byte below 128, two bytes above).
\<close>

type_synonym byte = "8 word"

definition utf8 :: "string \<Rightarrow> byte list" where
  "utf8 s = concat (map (\<lambda>c. let n = (of_char c :: nat)
                              in if n < 128 then [of_nat n]
                                 else [of_nat (192 + n div 64), of_nat (128 + n mod 64)]) s)"

definition hexchar :: "nat \<Rightarrow> char" where
  "hexchar n = ''0123456789abcdef'' ! (n mod 16)"

definition digit_char :: "int \<Rightarrow> char" where
  "digit_char n = ''0123456789'' ! nat (n mod 10)"

function str_digits :: "int \<Rightarrow> string" where
  "str_digits n = (if n < 10 then [digit_char n] else str_digits (n div 10) @ [digit_char n])"
  by pat_completeness auto
termination
  by (relation "measure nat") auto

text \<open>\<open>str(i)\<close> for an \<open>int\<close>.\<close>

definition str_int :: "int \<Rightarrow> string" where
  "str_int i = (if i < 0 then CHR ''-'' # str_digits (- i) else str_digits i)"

text \<open>\<open>int(x)\<close> for a float: truncation towards zero.\<close>

fun py_int :: "pyfloat \<Rightarrow> error + int" where
  "py_int (Fin q) = Inr (if q < 0 then - \<lfloor>- q\<rfloor> else \<lfloor>q\<rfloor>)"
| "py_int NegZero = Inr 0"
| "py_int PInf = Inl OverflowError"
| "py_int NInf = Inl OverflowError"
| "py_int NaN = Inl ValueError"

text \<open>\<open>sep.join(xs)\<close>\<close>

fun py_join :: "string \<Rightarrow> string list \<Rightarrow> string" where
  "py_join sep [] = []"
| "py_join sep [x] = x"
| "py_join sep (x # y # ys) = x @ sep @ py_join sep (y # ys)"

subsection \<open>\<open>hmac.new(key, msg, digestmod=hashlib.sha256).hexdigest()\<close>\<close>

text \<open>SHA-256 (FIPS 180-4) on byte strings, with 32-bit words that wrap around.\<close>

definition sha256_k :: "32 word list" where
  "sha256_k =
    [1116352408, 1899447441, 3049323471, 3921009573, 961987163, 1508970993,
     2453635748, 2870763221, 3624381080, 310598401, 607225278, 1426881987,
     1925078388, 2162078206, 2614888103, 3248222580, 3835390401, 4022224774,
     264347078, 604807628, 770255983, 1249150122, 1555081692, 1996064986,
     2554220882, 2821834349, 2952996808, 3210313671, 3336571891, 3584528711,
     113926993, 338241895, 666307205, 773529912, 1294757372, 1396182291,
     1695183700, 1986661051, 2177026350, 2456956037, 2730485921, 2820302411,
     3259730800, 3345764771, 3516065817, 3600352804, 4094571909, 275423344,
     430227734, 506948616, 659060556, 883997877, 958139571, 1322822218,
     1537002063, 1747873779, 1955562222, 2024104815, 2227730452, 2361852424,
     2428436474, 2756734187, 3204031479, 3329325298]"

definition sha256_h0 :: "32 word list" where
  "sha256_h0 =
    [1779033703, 3144134277, 1013904242, 2773480762,
     1359893119, 2600822924, 528734635, 1541459225]"

definition be_bytes :: "nat \<Rightarrow> nat \<Rightarrow> byte list" where
  "be_bytes n v = map (\<lambda>i. of_nat (v div 256 ^ (n - 1 - i))) [0..<n]"

definition be_word :: "byte list \<Rightarrow> 32 word" where
  "be_word bs = foldl (\<lambda>w b. push_bit 8 w OR ucast b) 0 bs"

definition sha256_pad :: "byte list \<Rightarrow> byte list" where
  "sha256_pad m =
     m @ [128] @ replicate ((119 - length m mod 64) mod 64) 0 @ be_bytes 8 (8 * length m)"

definition sha256_schedule :: "byte list \<Rightarrow> 32 word list" where
  "sha256_schedule block =
     foldl (\<lambda>w t.
        let s0 = word_rotr 7 (w ! (t - 15)) XOR word_rotr 18 (w ! (t - 15))
                   XOR drop_bit 3 (w ! (t - 15));
            s1 = word_rotr 17 (w ! (t - 2)) XOR word_rotr 19 (w ! (t - 2))
                   XOR drop_bit 10 (w ! (t - 2))
        in w @ [s1 + w ! (t - 7) + s0 + w ! (t - 16)])
       (map (\<lambda>i. be_word (take 4 (drop (4 * i) block))) [0..<16]) [16..<64]"

definition sha256_round :: "32 word list \<Rightarrow> 32 word list \<Rightarrow> nat \<Rightarrow> 32 word list" where
  "sha256_round w v t =
     (case v of [a, b, c, d, e, f, g, h] \<Rightarrow>
        let t1 = h + (word_rotr 6 e XOR word_rotr 11 e XOR word_rotr 25 e)
                   + ((e AND f) XOR (NOT e AND g)) + sha256_k ! t + w ! t;
            t2 = (word_rotr 2 a XOR word_rotr 13 a XOR word_rotr 22 a)
                   + ((a AND b) XOR (a AND c) XOR (b AND c))
        in [t1 + t2, a, b, c, d + t1, e, f, g]
      | _ \<Rightarrow> v)"

definition sha256_compress :: "32 word list \<Rightarrow> byte list \<Rightarrow> 32 word list" where
  "sha256_compress hs block =
     map2 (+) hs (foldl (sha256_round (sha256_schedule block)) hs [0..<64])"

definition sha256 :: "byte list \<Rightarrow> byte list" where
  "sha256 m =
     (let p = sha256_pad m;
          hs = foldl (\<lambda>hs i. sha256_compress hs (take 64 (drop (64 * i) p)))
                 sha256_h0 [0..<length p div 64]
      in concat (map (\<lambda>h. be_bytes 4 (unat h)) hs))"

text \<open>HMAC (RFC 2104) with SHA-256, block size 64.\<close>

definition hmac_sha256 :: "byte list \<Rightarrow> byte list \<Rightarrow> byte list" where
  "hmac_sha256 k msg =
     (let k0 = (if 64 < length k then sha256 k else k);
          kp = k0 @ replicate (64 - length k0) 0
      in sha256 (map (\<lambda>b. b XOR 92) kp @ sha256 (map (\<lambda>b. b XOR 54) kp @ msg)))"

definition hexdigest :: "byte list \<Rightarrow> string" where
  "hexdigest bs = concat (map (\<lambda>b. [hexchar (unat b div 16), hexchar (unat b)]) bs)"

subsection \<open>\<open>str(uuid.uuid4())\<close>\<close>

text \<open>
  \<open>uuid.uuid4()\<close> draws 16 random bytes and sets the variant bits to \<open>10\<close> and the
  version nibble to 4; \<open>str\<close> prints the 32 hexadecimal digits in groups of 8-4-4-4-12.
\<close>

definition uuid4 :: "128 word \<Rightarrow> 128 word" where
  "uuid4 r = (((r AND NOT (push_bit 48 49152)) OR push_bit 48 32768)
                AND NOT (push_bit 64 61440)) OR push_bit 76 4"

definition str_uuid :: "128 word \<Rightarrow> string" where
  "str_uuid u =
     (let hex = map (\<lambda>i. hexchar (unat (drop_bit (4 * (31 - i)) u AND 15))) [0..<32]
      in take 8 hex @ ''-'' @ take 4 (drop 8 hex) @ ''-'' @ take 4 (drop 12 hex)
           @ ''-'' @ take 4 (drop 16 hex) @ ''-'' @ drop 20 hex)"

subsection \<open>Decoded JSON\<close>

text \<open>
  What \<open>json.loads\<close> returns: \<open>None\<close>, \<open>bool\<close>, \<open>int\<close>, \<open>float\<close>, \<open>str\<close>, \<open>list\<close>, \<open>dict\<close>.
  A \<open>dict\<close> is an association list in insertion order, read with \<open>map_of\<close>.
  \<open>JNull\<close> is also the \<open>None\<close> that \<open>_request\<close> returns on status 401.
\<close>

datatype json =
  JNull | JBool bool | JInt int | JFloat pyfloat | JStr string
  | JList "json list" | JDict "(string \<times> json) list"

text \<open>
  The three functions of the C runtime on floats that the source reaches through
  \<open>math.log10\<close>, \<open>str\<close> (the shortest repr of a float) and \<open>float\<close> of a \<open>str\<close>
  (\<open>None\<close> where Python raises \<open>ValueError\<close>) are parameters of the model.
\<close>

record runtime =
  math_log10 :: "pyfloat \<Rightarrow> pyfloat"
  float_repr :: "pyfloat \<Rightarrow> string"
  float_of_str :: "string \<Rightarrow> pyfloat option"

definition ebind :: "error + 'a \<Rightarrow> ('a \<Rightarrow> error + 'b) \<Rightarrow> error + 'b" where
  "ebind m f = (case m of Inl e \<Rightarrow> Inl e | Inr x \<Rightarrow> f x)"

text \<open>\<open>v[k]\<close> with a \<open>str\<close> key \<open>k\<close>: only a \<open>dict\<close> has one.\<close>

fun subscript :: "json \<Rightarrow> string \<Rightarrow> error + json" where
  "subscript (JDict kvs) k = (case map_of kvs k of None \<Rightarrow> Inl KeyError | Some v \<Rightarrow> Inr v)"
| "subscript _ k = Inl TypeError"

text \<open>\<open>for x in v\<close>: a list gives its elements, a dict its keys, a str its characters.\<close>

fun py_iter :: "json \<Rightarrow> error + json list" where
  "py_iter (JList xs) = Inr xs"
| "py_iter (JDict kvs) = Inr (map JStr (remdups (map fst kvs)))"
| "py_iter (JStr s) = Inr (map (\<lambda>c. JStr [c]) s)"
| "py_iter _ = Inl TypeError"

text \<open>\<open>float(v)\<close>\<close>

fun py_float :: "runtime \<Rightarrow> json \<Rightarrow> error + pyfloat" where
  "py_float rt (JFloat x) = Inr x"
| "py_float rt (JInt i) =
     (case fl (of_int i) of PInf \<Rightarrow> Inl OverflowError | NInf \<Rightarrow> Inl OverflowError
      | x \<Rightarrow> Inr x)"
| "py_float rt (JBool b) = Inr (Fin (if b then 1 else 0))"
| "py_float rt (JStr s) =
     (case float_of_str rt s of None \<Rightarrow> Inl ValueError | Some x \<Rightarrow> Inr x)"
| "py_float rt _ = Inl TypeError"

text \<open>\<open>[f(x) for x in xs]\<close>: the first exception ends the comprehension.\<close>

fun comprehension :: "('a \<Rightarrow> error + 'b) \<Rightarrow> 'a list \<Rightarrow> error + 'b list" where
  "comprehension f [] = Inr []"
| "comprehension f (x # xs) =
     ebind (f x) (\<lambda>y. ebind (comprehension f xs) (\<lambda>ys. Inr (y # ys)))"

text \<open>
  \<open>json.dumps\<close> with its defaults: separators \<open>", "\<close> and \<open>": "\<close>, and every character
  outside the printable ASCII range escaped (\<open>ensure_ascii\<close>).
\<close>

definition escape_char :: "char \<Rightarrow> string" where
  "escape_char c =
     (let n = (of_char c :: nat) in
      if n = 34 then [CHR 0x5C, CHR 0x22]
      else if n = 92 then [CHR 0x5C, CHR 0x5C]
      else if n = 10 then [CHR 0x5C, CHR ''n'']
      else if n = 13 then [CHR 0x5C, CHR ''r'']
      else if n = 9 then [CHR 0x5C, CHR ''t'']
      else if n = 8 then [CHR 0x5C, CHR ''b'']
      else if n = 12 then [CHR 0x5C, CHR ''f'']
      else if 32 \<le> n \<and> n \<le> 126 then [c]
      else [CHR 0x5C, CHR ''u'', CHR ''0'', CHR ''0'', hexchar (n div 16), hexchar n])"

definition encode_basestring_ascii :: "string \<Rightarrow> string" where
  "encode_basestring_ascii s = [CHR 0x22] @ concat (map escape_char s) @ [CHR 0x22]"

fun json_dumps :: "runtime \<Rightarrow> json \<Rightarrow> string"
  and dumps_list :: "runtime \<Rightarrow> json list \<Rightarrow> string"
  and dumps_items :: "runtime \<Rightarrow> (string \<times> json) list \<Rightarrow> string" where
  "json_dumps rt JNull = ''null''"
| "json_dumps rt (JBool b) = (if b then ''true'' else ''false'')"
| "json_dumps rt (JInt i) = str_int i"
| "json_dumps rt (JFloat x) =
     (case x of NaN \<Rightarrow> ''NaN'' | PInf \<Rightarrow> ''Infinity'' | NInf \<Rightarrow> ''-Infinity''
      | _ \<Rightarrow> float_repr rt x)"
| "json_dumps rt (JStr s) = encode_basestring_ascii s"
| "json_dumps rt (JList xs) = ''['' @ dumps_list rt xs @ '']''"
| "json_dumps rt (JDict kvs) = ''{'' @ dumps_items rt kvs @ ''}''"
| "dumps_list rt [] = []"
| "dumps_list rt (x # xs) =
     json_dumps rt x @ (if xs = [] then [] else '', '' @ dumps_list rt xs)"
| "dumps_items rt [] = []"
| "dumps_items rt (kv # kvs) =
     encode_basestring_ascii (fst kv) @ '': '' @ json_dumps rt (snd kv)
       @ (if kvs = [] then [] else '', '' @ dumps_items rt kvs)"

section \<open>The enumerations and credentials of the source\<close>

datatype Side = BUY | SELL

fun Side_value :: "Side \<Rightarrow> string" where
  "Side_value BUY = ''BUY''"
| "Side_value SELL = ''SELL''"

datatype Pair = BTC_USD | BTC_USDC | ETH_USD | ETH_USDC

fun Pair_value :: "Pair \<Rightarrow> string" where
  "Pair_value BTC_USD = ''BTC-USD''"
| "Pair_value BTC_USDC = ''BTC-USDC''"
| "Pair_value ETH_USD = ''ETH-USD''"
| "Pair_value ETH_USDC = ''ETH-USDC''"

datatype Resource = ACCOUNTS | ORDERS | PRODUCTS

fun Resource_value :: "Resource \<Rightarrow> string" where
  "Resource_value ACCOUNTS = ''accounts''"
| "Resource_value ORDERS = ''orders''"
| "Resource_value PRODUCTS = ''products''"

datatype HTTPMethod = GET | POST

fun HTTPMethod_value :: "HTTPMethod \<Rightarrow> string" where
  "HTTPMethod_value GET = ''GET''"
| "HTTPMethod_value POST = ''POST''"

record CoinbaseApiCredentials =
  key :: string
  secret :: string

definition BASE_ENDPOINT :: string where
  "BASE_ENDPOINT = ''/api/v3/brokerage/''"

text \<open>The literal \<open>0.002\<close>: the float nearest to 2/1000.\<close>

definition PRICE_DELTA :: pyfloat where
  "PRICE_DELTA = fl (2 / 1000)"

section \<open>The outside world and the effects of a call\<close>

record http_request =
  req_host :: string
  req_method :: string
  req_url :: string
  req_body :: string
  req_headers :: "(string \<times> string) list"

text \<open>
  A response: its status and its payload as \<open>json.loads\<close> decodes it, \<open>None\<close> for a
  payload that \<open>json.loads\<close> rejects with \<open>JSONDecodeError\<close>.
\<close>

record http_response =
  status :: nat
  payload :: "json option"

type_synonym exchange = "http_request \<times> http_response option"

text \<open>
  What a call reads from outside: the clock (\<open>time.time()\<close> at the request sent after \<open>k\<close>
  earlier ones), the exchange (its answer to a request, given the exchanges so far; \<open>None\<close>
  when the connection fails and \<open>http.client\<close> raises \<open>OSError\<close>) and the 16 random
  bytes that \<open>uuid.uuid4()\<close> draws.
\<close>

record world =
  time_time :: "nat \<Rightarrow> pyfloat"
  respond :: "exchange list \<Rightarrow> http_request \<Rightarrow> http_response option"
  os_urandom :: "128 word"

text \<open>What a call does to the outside: the requests sent, in order, each with its answer,
  and the lines printed.\<close>

record effects =
  sent :: "exchange list"
  printed :: "string list"

definition no_effects :: effects where
  "no_effects = \<lparr>sent = [], printed = []\<rparr>"

section \<open>\<open>class CoinbaseDCA\<close>\<close>

text \<open>
  The methods keep their names, without the leading underscore of \<open>_request\<close>,
  \<open>_get_currency_sigfigs\<close> and \<open>_generate_client_order_id\<close>. A method that talks to the
  exchange takes the effects so far and returns them extended, with its result or the
  exception it raised.
\<close>

subsection \<open>\<open>_request\<close> (lines 110 to 136)\<close>

definition unauthorized_message :: string where
  "unauthorized_message = ''Error: Unauthorized. Please check your API key and secret.''"

definition signed_request ::
  "CoinbaseApiCredentials \<Rightarrow> string \<Rightarrow> HTTPMethod \<Rightarrow> string \<Rightarrow> string \<Rightarrow> http_request" where
  "signed_request creds timestamp method resource body =
     (let endpoint = BASE_ENDPOINT @ resource;
          message = timestamp @ HTTPMethod_value method @ endpoint @ body;
          signature = hexdigest (hmac_sha256 (utf8 (secret creds)) (utf8 message));
          headers = [(''accept'', ''application/json''),
                     (''CB-ACCESS-KEY'', key creds),
                     (''CB-ACCESS-SIGN'', signature),
                     (''CB-ACCESS-TIMESTAMP'', timestamp)]
      in \<lparr>req_host = ''api.coinbase.com'', req_method = HTTPMethod_value method,
          req_url = endpoint, req_body = body, req_headers = headers\<rparr>)"

definition request ::
  "world \<Rightarrow> CoinbaseApiCredentials \<Rightarrow> HTTPMethod \<Rightarrow> string \<Rightarrow> string \<Rightarrow> effects
     \<Rightarrow> (error + json) \<times> effects" where
  "request w creds method resource body s =
     (case py_int (time_time w (length (sent s))) of
        Inl e \<Rightarrow> (Inl e, s)
      | Inr t \<Rightarrow>
          let req = signed_request creds (str_int t) method resource body
          in (case respond w (sent s) req of
                None \<Rightarrow> (Inl OSError, s\<lparr>sent := sent s @ [(req, None)]\<rparr>)
              | Some res \<Rightarrow>
                  let s' = s\<lparr>sent := sent s @ [(req, Some res)]\<rparr>
                  in if status res = 401
                     then (Inr JNull, s'\<lparr>printed := printed s' @ [unauthorized_message]\<rparr>)
                     else (case payload res of
                             None \<Rightarrow> (Inl JSONDecodeError, s')
                           | Some v \<Rightarrow> (Inr v, s'))))"

subsection \<open>\<open>list_products\<close> (lines 101 to 103) and \<open>get_product\<close> (lines 105 to 108)\<close>

definition list_products ::
  "world \<Rightarrow> CoinbaseApiCredentials \<Rightarrow> effects \<Rightarrow> (error + json list) \<times> effects" where
  "list_products w creds s =
     (case request w creds GET (Resource_value PRODUCTS) [] s of
        (r, s') \<Rightarrow>
          (ebind r (\<lambda>response.
             ebind (subscript response ''products'') (\<lambda>products.
               ebind (py_iter products)
                 (comprehension (\<lambda>product. subscript product ''product_id'')))), s'))"

definition get_product ::
  "world \<Rightarrow> CoinbaseApiCredentials \<Rightarrow> Pair \<Rightarrow> effects \<Rightarrow> (error + json) \<times> effects" where
  "get_product w creds pair s =
     request w creds GET (py_join ''/'' [Resource_value PRODUCTS, Pair_value pair]) [] s"

subsection \<open>\<open>_get_currency_sigfigs\<close> (lines 138 to 140)\<close>

definition get_currency_sigfigs :: "runtime \<Rightarrow> pyfloat \<Rightarrow> error + int" where
  "get_currency_sigfigs rt currency_increment =
     (if fgt currency_increment (Fin 0)
      then ebind (math_floor (math_log10 rt currency_increment)) (\<lambda>n. Inr (- n))
      else Inl (AssertionError IncrementPositive))"

subsection \<open>\<open>_generate_client_order_id\<close> (lines 142 to 143)\<close>

definition generate_client_order_id :: "world \<Rightarrow> 128 word" where
  "generate_client_order_id w = uuid4 (os_urandom w)"

subsection \<open>\<open>create_order\<close> (lines 51 to 99)\<close>

text \<open>\<open>float(product[k])\<close>\<close>

definition product_float :: "runtime \<Rightarrow> json \<Rightarrow> string \<Rightarrow> error + pyfloat" where
  "product_float rt product k = ebind (subscript product k) (py_float rt)"

text \<open>Line 74: \<open>1.0 + (-self.PRICE_DELTA if side == Side.BUY else self.PRICE_DELTA)\<close>\<close>

definition price_factor :: "Side \<Rightarrow> pyfloat" where
  "price_factor side = fadd (Fin 1) (if side = BUY then fneg PRICE_DELTA else PRICE_DELTA)"

text \<open>Lines 71 to 75: the adjusted limit price.\<close>

definition order_price :: "runtime \<Rightarrow> Side \<Rightarrow> json \<Rightarrow> error + pyfloat" where
  "order_price rt side product =
     ebind (product_float rt product ''quote_increment'') (\<lambda>quote_increment.
     ebind (get_currency_sigfigs rt quote_increment) (\<lambda>quote_max_digits.
     ebind (product_float rt product ''price'') (\<lambda>price.
     py_round (fmul price (price_factor side)) quote_max_digits)))"

text \<open>Lines 78 to 80: the amount of base currency.\<close>

definition order_base_size :: "runtime \<Rightarrow> pyfloat \<Rightarrow> pyfloat \<Rightarrow> json \<Rightarrow> error + pyfloat" where
  "order_base_size rt quote_size price_adjusted product =
     ebind (product_float rt product ''base_increment'') (\<lambda>base_increment.
     ebind (get_currency_sigfigs rt base_increment) (\<lambda>base_max_digits.
     ebind (fdiv quote_size price_adjusted) (\<lambda>base_size.
     py_round base_size base_max_digits)))"

text \<open>
  Lines 67 to 83, which talk to nobody: from the product that \<open>get_product\<close> returned,
  the adjusted price and the rounded base size, or the first exception.
\<close>

definition order_sizes :: "runtime \<Rightarrow> Side \<Rightarrow> pyfloat \<Rightarrow> json \<Rightarrow> error + pyfloat \<times> pyfloat" where
  "order_sizes rt side quote_size product =
     ebind (product_float rt product ''quote_min_size'') (\<lambda>quote_min_size.
     if \<not> fge quote_size quote_min_size then Inl (AssertionError QuoteSizeMin) else
     ebind (product_float rt product ''quote_max_size'') (\<lambda>quote_max_size.
     if \<not> fle quote_size quote_max_size then Inl (AssertionError QuoteSizeMax) else
     ebind (order_price rt side product) (\<lambda>price_adjusted.
     ebind (order_base_size rt quote_size price_adjusted product) (\<lambda>base_size_rounded.
     ebind (product_float rt product ''base_min_size'') (\<lambda>base_min_size.
     if \<not> fge base_size_rounded base_min_size then Inl (AssertionError BaseSizeMin) else
     ebind (product_float rt product ''base_max_size'') (\<lambda>base_max_size.
     if \<not> fle base_size_rounded base_max_size then Inl (AssertionError BaseSizeMax) else
     Inr (price_adjusted, base_size_rounded)))))))"

text \<open>Lines 87 to 98: the dictionary given to \<open>json.dumps\<close>.\<close>

definition order_body :: "runtime \<Rightarrow> world \<Rightarrow> Side \<Rightarrow> Pair \<Rightarrow> pyfloat \<Rightarrow> pyfloat \<Rightarrow> json" where
  "order_body rt w side pair price_adjusted base_size_rounded =
     JDict [(''client_order_id'', JStr (str_uuid (generate_client_order_id w))),
            (''side'', JStr (Side_value side)),
            (''product_id'', JStr (Pair_value pair)),
            (''order_configuration'',
               JDict [(''limit_limit_gtc'',
                  JDict [(''post_only'', JBool False),
                         (''limit_price'', JStr (float_repr rt price_adjusted)),
                         (''base_size'', JStr (float_repr rt base_size_rounded))])])]"

definition create_order ::
  "runtime \<Rightarrow> world \<Rightarrow> CoinbaseApiCredentials \<Rightarrow> Side \<Rightarrow> Pair \<Rightarrow> pyfloat \<Rightarrow> effects
     \<Rightarrow> (error + json) \<times> effects" where
  "create_order rt w creds side pair quote_size s =
     (case list_products w creds s of
        (Inl e, s1) \<Rightarrow> (Inl e, s1)
      | (Inr listed, s1) \<Rightarrow>
          if JStr (Pair_value pair) \<notin> set listed then (Inl (AssertionError PairListed), s1)
          else (case get_product w creds pair s1 of
                  (Inl e, s2) \<Rightarrow> (Inl e, s2)
                | (Inr product, s2) \<Rightarrow>
                    (case order_sizes rt side quote_size product of
                       Inl e \<Rightarrow> (Inl e, s2)
                     | Inr (price_adjusted, base_size_rounded) \<Rightarrow>
                         request w creds POST (Resource_value ORDERS)
                           (json_dumps rt
                              (order_body rt w side pair price_adjusted base_size_rounded))
                           s2)))"

section \<open>Reading the effects of a call\<close>

text \<open>The method and URL of an exchange, and whether it was answered with status 401.\<close>

definition call_of :: "exchange \<Rightarrow> string \<times> string" where
  "call_of x = (req_method (fst x), req_url (fst x))"

definition unauthorized :: "exchange \<Rightarrow> bool" where
  "unauthorized x = (case snd x of None \<Rightarrow> False | Some r \<Rightarrow> status r = 401)"

text \<open>The exchanges a call added to those of the effects it started from.\<close>

definition new_exchanges :: "effects \<Rightarrow> effects \<Rightarrow> exchange list" where
  "new_exchanges s s' = drop (length (sent s)) (sent s')"

text \<open>The lines that \<open>_request\<close> prints for a list of exchanges: one per status 401.\<close>

definition notices :: "exchange list \<Rightarrow> string list" where
  "notices xs = concat (map (\<lambda>x. if unauthorized x then [unauthorized_message] else []) xs)"

text \<open>
  A request is well signed when its \<open>CB-ACCESS-SIGN\<close> header is the hexadecimal
  HMAC-SHA256, keyed by the secret, of its own \<open>CB-ACCESS-TIMESTAMP\<close> header followed by
  its method, its URL and its body.
\<close>

definition header :: "http_request \<Rightarrow> string \<Rightarrow> string option" where
  "header rq k = map_of (req_headers rq) k"

definition well_signed :: "CoinbaseApiCredentials \<Rightarrow> http_request \<Rightarrow> bool" where
  "well_signed creds rq =
     (case header rq ''CB-ACCESS-TIMESTAMP'' of
        None \<Rightarrow> False
      | Some ts \<Rightarrow>
          header rq ''CB-ACCESS-SIGN'' =
            Some (hexdigest (hmac_sha256 (utf8 (secret creds))
                    (utf8 (ts @ req_method rq @ req_url rq @ req_body rq)))))"

text \<open>The three calls of \<open>create_order\<close>, in the order of lines 63, 65 and 99.\<close>

definition create_order_calls :: "Pair \<Rightarrow> (string \<times> string) list" where
  "create_order_calls pair =
     [(''GET'', ''/api/v3/brokerage/products''),
      (''GET'', ''/api/v3/brokerage/products/'' @ Pair_value pair),
      (''POST'', ''/api/v3/brokerage/orders'')]"

section \<open>A concrete exchange\<close>

text \<open>
  A runtime that agrees with CPython on the values used below: \<open>math.log10\<close> of the
  floats nearest to 0.01, 0.0001, 1 and 0.00000001, the repr of 49900.0 and of 0.0002004,
  and \<open>float\<close> of the decimal strings of the product and of \<open>0.0002004\<close>.
\<close>

definition demo_runtime :: runtime where
  "demo_runtime =
     \<lparr>math_log10 = (\<lambda>x. case map_of [(fl (1 / 100), Fin (- 2)), (fl (1 / 10000), Fin (- 4)),
                                        (Fin 1, Fin 0), (fl (1 / 100000000), Fin (- 8))] x of
                         Some y \<Rightarrow> y | None \<Rightarrow> NaN),
      float_repr = (\<lambda>x. case map_of [(Fin 49900, ''49900.0''),
                                        (fl (2004 / 10000000), ''0.0002004'')] x of
                         Some s \<Rightarrow> s | None \<Rightarrow> ''?''),
      float_of_str = map_of [(''0.01'', fl (1 / 100)), (''0.00000001'', fl (1 / 100000000)),
                             (''1'', Fin 1), (''10000000'', Fin 10000000),
                             (''3400'', Fin 3400), (''50000'', Fin 50000),
                             (''0.0002004'', fl (2004 / 10000000))]\<rparr>"

definition demo_product :: json where
  "demo_product =
     JDict [(''product_id'', JStr ''BTC-USDC''), (''price'', JStr ''50000''),
            (''quote_increment'', JStr ''0.01''), (''base_increment'', JStr ''0.00000001''),
            (''quote_min_size'', JStr ''1''), (''quote_max_size'', JStr ''10000000''),
            (''base_min_size'', JStr ''0.00000001''), (''base_max_size'', JStr ''3400'')]"

text \<open>The same product with one field replaced.\<close>

definition demo_product_with :: "string \<Rightarrow> string \<Rightarrow> json" where
  "demo_product_with k v =
     (case demo_product of JDict kvs \<Rightarrow> JDict ((k, JStr v) # kvs) | j \<Rightarrow> j)"

definition demo_listing :: json where
  "demo_listing =
     JDict [(''products'', JList [JDict [(''product_id'', JStr ''BTC-USD'')], demo_product])]"

text \<open>An exchange that answers every request with status 200, whatever came before.\<close>

definition demo_world :: world where
  "demo_world =
     \<lparr>time_time = (\<lambda>k. Fin (1730660000 + of_nat k + 1 / 4)),
      respond = (\<lambda>hist req.
         Some \<lparr>status = 200,
               payload = Some (if req_url req = ''/api/v3/brokerage/products''
                               then demo_listing
                               else if req_url req = ''/api/v3/brokerage/products/BTC-USDC''
                               then demo_product
                               else JDict [(''success'', JBool True)])\<rparr>),
      os_urandom = 24197857203266734864793317670504947440\<rparr>"

text \<open>The same exchange with a fixed status for the \<open>n\<close>-th request of the call (from 0).\<close>

definition status_at :: "nat \<Rightarrow> nat \<Rightarrow> world" where
  "status_at n st =
     demo_world\<lparr>respond := (\<lambda>hist req.
        if length hist = n then Some \<lparr>status = st, payload = None\<rparr>
        else respond demo_world hist req)\<rparr>"

definition demo_creds :: CoinbaseApiCredentials where
  "demo_creds = \<lparr>key = ''demo-key'', secret = ''demo-secret''\<rparr>"

section \<open>Properties\<close>

subsection \<open>What a request, and a whole call, do to the outside\<close>

lemma req_fields [simp]:
  "req_method (signed_request c ts m r b) = HTTPMethod_value m"
  "req_url (signed_request c ts m r b) = BASE_ENDPOINT @ r"
  "req_body (signed_request c ts m r b) = b"
  "req_host (signed_request c ts m r b) = ''api.coinbase.com''"
  by (simp_all add: signed_request_def Let_def)

lemma header_signed_request [simp]:
  "header (signed_request c ts m r b) ''CB-ACCESS-TIMESTAMP'' = Some ts"
  "header (signed_request c ts m r b) ''CB-ACCESS-KEY'' = Some (key c)"
  "header (signed_request c ts m r b) ''accept'' = Some ''application/json''"
  "header (signed_request c ts m r b) ''CB-ACCESS-SIGN'' =
     Some (hexdigest (hmac_sha256 (utf8 (secret c))
             (utf8 (ts @ HTTPMethod_value m @ (BASE_ENDPOINT @ r) @ b))))"
  by (simp_all add: header_def signed_request_def Let_def)

lemma well_signed_signed_request [simp]: "well_signed c (signed_request c ts m r b)"
  by (simp add: well_signed_def)

lemma request_elim:
  assumes "request w c m r b s = (res, s')"
  obtains (stop) e where "res = Inl e" "s' = s"
  | (sent) x where "sent s' = sent s @ [x]"
      "printed s' = printed s @ (if unauthorized x then [unauthorized_message] else [])"
      "call_of x = (HTTPMethod_value m, BASE_ENDPOINT @ r)"
      "req_body (fst x) = b"
      "unauthorized x \<Longrightarrow> res = Inr JNull"
      "snd x = respond w (sent s) (fst x)"
      "well_signed c (fst x)"
  using assms
  by (auto simp: request_def Let_def call_of_def unauthorized_def
      split: sum.splits option.splits if_splits)


lemma list_products_elim:
  assumes "list_products w c s = (res, s')"
  obtains (stop) e where "res = Inl e" "s' = s"
  | (sent) x where "sent s' = sent s @ [x]"
      "printed s' = printed s @ (if unauthorized x then [unauthorized_message] else [])"
      "call_of x = (''GET'', ''/api/v3/brokerage/products'')"
      "req_body (fst x) = []"
      "unauthorized x \<Longrightarrow> res = Inl TypeError"
      "snd x = respond w (sent s) (fst x)"
      "well_signed c (fst x)"
proof -
  obtain r where rq: "request w c GET (Resource_value PRODUCTS) [] s = (r, s')"
    and res: "res = ebind r (\<lambda>response.
             ebind (subscript response ''products'') (\<lambda>products.
               ebind (py_iter products)
                 (comprehension (\<lambda>product. subscript product ''product_id''))))"
    using assms by (auto simp: list_products_def split: prod.splits)
  from rq show ?thesis
  proof (cases rule: request_elim)
    case (stop e)
    then show ?thesis using res that(1) by (simp add: ebind_def)
  next
    case (sent x)
    then show ?thesis using res that(2) [of x]
      by (auto simp: ebind_def BASE_ENDPOINT_def)
  qed
qed

lemma get_product_elim:
  assumes "get_product w c pair s = (res, s')"
  obtains (stop) e where "res = Inl e" "s' = s"
  | (sent) x where "sent s' = sent s @ [x]"
      "printed s' = printed s @ (if unauthorized x then [unauthorized_message] else [])"
      "call_of x = (''GET'', ''/api/v3/brokerage/products/'' @ Pair_value pair)"
      "req_body (fst x) = []"
      "unauthorized x \<Longrightarrow> res = Inr JNull"
      "snd x = respond w (sent s) (fst x)"
      "well_signed c (fst x)"
proof -
  from assms have rq:
    "request w c GET (py_join ''/'' [Resource_value PRODUCTS, Pair_value pair]) [] s = (res, s')"
    by (simp add: get_product_def)
  from rq show ?thesis
  proof (cases rule: request_elim)
    case (stop e)
    then show ?thesis using that(1) by simp
  next
    case (sent x)
    then show ?thesis using that(2) [of x] by (auto simp: BASE_ENDPOINT_def)
  qed
qed

lemma order_sizes_None: "order_sizes rt side q JNull = Inl TypeError"
  by (simp add: order_sizes_def product_float_def ebind_def)

lemma create_order_trace:
  assumes "create_order rt w c side pair q s = (res, s')"
  shows "\<exists>xs. sent s' = sent s @ xs \<and> length xs \<le> 3
            \<and> map call_of xs = take (length xs) (create_order_calls pair)
            \<and> printed s' = printed s @ notices xs
            \<and> (\<forall>x \<in> set xs. unauthorized x \<longrightarrow>
                 (if req_method (fst x) = ''GET'' then res = Inl TypeError else res = Inr JNull))
            \<and> (\<forall>x \<in> set (butlast xs). \<not> unauthorized x)
            \<and> (\<forall>x \<in> set xs. well_signed c (fst x))
            \<and> (\<forall>x \<in> set xs. req_method (fst x) = ''POST'' \<longrightarrow>
                 (\<exists>product p b. order_sizes rt side q product = Inr (p, b)
                    \<and> req_body (fst x) = json_dumps rt (order_body rt w side pair p b)))"
proof -
  obtain r1 s1 where lp: "list_products w c s = (r1, s1)" by (cases "list_products w c s")
  from lp show ?thesis
  proof (cases rule: list_products_elim)
    case (stop e)
    then show ?thesis using assms lp
      by (auto simp: create_order_def notices_def intro!: exI [of _ "[]"])
  next
    case s1: (sent x1)
    show ?thesis
    proof (cases "\<exists>listed. r1 = Inr listed \<and> JStr (Pair_value pair) \<in> set listed")
      case False
      then have "s' = s1" and "unauthorized x1 \<longrightarrow> res = Inl TypeError"
        using assms lp s1(5) by (auto simp: create_order_def split: sum.splits)
      then show ?thesis using s1
        by (auto simp: notices_def create_order_calls_def call_of_def intro!: exI [of _ "[x1]"])
    next
      case True
      then obtain listed where r1: "r1 = Inr listed" "JStr (Pair_value pair) \<in> set listed"
        by blast
      then have nu1: "\<not> unauthorized x1" using s1(5) by auto
      obtain r2 s2 where gp: "get_product w c pair s1 = (r2, s2)"
        by (cases "get_product w c pair s1")
      from gp show ?thesis
      proof (cases rule: get_product_elim)
        case (stop e)
        then have "s' = s1" "res = Inl e"
          using assms lp r1 gp by (auto simp: create_order_def)
        then show ?thesis using s1 nu1
          by (auto simp: notices_def create_order_calls_def call_of_def
              intro!: exI [of _ "[x1]"])
      next
        case s2: (sent x2)
        show ?thesis
        proof (cases "\<exists>product p b. r2 = Inr product \<and> order_sizes rt side q product = Inr (p, b)")
          case False
          then have "s' = s2" and "unauthorized x2 \<longrightarrow> res = Inl TypeError"
            using assms lp r1 gp s2(5) order_sizes_None [of rt side q]
            by (auto simp: create_order_def split: sum.splits)
          then show ?thesis using s1 s2 nu1
            by (auto simp: notices_def create_order_calls_def call_of_def
                intro!: exI [of _ "[x1, x2]"])
        next
          case True
          then obtain product p b where r2: "r2 = Inr product"
            and os: "order_sizes rt side q product = Inr (p, b)" by blast
          have nu2: "\<not> unauthorized x2"
            using s2(5) r2 os order_sizes_None [of rt side q] by auto
          have rq: "request w c POST (Resource_value ORDERS)
                      (json_dumps rt (order_body rt w side pair p b)) s2 = (res, s')"
            using assms lp r1 gp r2 os by (simp add: create_order_def)
          from rq show ?thesis
          proof (cases rule: request_elim)
            case (stop e)
            then show ?thesis using s1 s2 nu1 nu2
              by (auto simp: notices_def create_order_calls_def call_of_def
                  intro!: exI [of _ "[x1, x2]"])
          next
            case (sent x3)
            then show ?thesis using s1 s2 nu1 nu2 os
              by (auto simp: notices_def create_order_calls_def call_of_def BASE_ENDPOINT_def
                  intro!: exI [of _ "[x1, x2, x3]"])
          qed
        qed
      qed
    qed
  qed
qed


lemma demo_order_sizes:
  "order_sizes demo_runtime BUY (Fin 10) demo_product = Inr (Fin 49900, fl (2004 / 10000000))"
  by code_simp

lemma py_int_demo_clock [simp]:
  "py_int (time_time demo_world k) = Inr (1730660000 + int k)"
proof -
  have "\<lfloor>(1730660000 + of_nat k + 1 / 4 :: rat)\<rfloor> = 1730660000 + int k"
    by linarith
  then show ?thesis by (simp add: demo_world_def)
qed

lemma time_status_at [simp]: "time_time (status_at n st) = time_time demo_world"
  by (simp add: status_at_def)

lemma respond_status_at [simp]:
  "respond (status_at n st) hist rq =
     (if length hist = n then Some \<lparr>status = st, payload = None\<rparr> else respond demo_world hist rq)"
  by (simp add: status_at_def)

lemma respond_demo_list [simp]:
  "respond demo_world hist (signed_request c ts m ''products'' b) =
     Some \<lparr>status = 200, payload = Some demo_listing\<rparr>"
  by (simp add: demo_world_def BASE_ENDPOINT_def)

lemma respond_demo_product [simp]:
  "respond demo_world hist (signed_request c ts m ''products/BTC-USDC'' b) =
     Some \<lparr>status = 200, payload = Some demo_product\<rparr>"
  by (simp add: demo_world_def BASE_ENDPOINT_def)

lemma respond_demo_orders [simp]:
  "respond demo_world hist (signed_request c ts m ''orders'' b) =
     Some \<lparr>status = 200, payload = Some (JDict [(''success'', JBool True)])\<rparr>"
  by (simp add: demo_world_def BASE_ENDPOINT_def)

lemma demo_listed:
  "ebind (subscript demo_listing ''products'') (\<lambda>products.
     ebind (py_iter products) (comprehension (\<lambda>product. subscript product ''product_id'')))
   = Inr [JStr ''BTC-USD'', JStr ''BTC-USDC'']"
  by (simp add: demo_listing_def demo_product_def ebind_def)

lemma demo_list_products:
  "list_products demo_world c s =
     (Inr [JStr ''BTC-USD'', JStr ''BTC-USDC''],
      s\<lparr>sent := sent s @ [(signed_request c (str_int (1730660000 + int (length (sent s)))) GET
                              ''products'' [],
                            Some \<lparr>status = 200, payload = Some demo_listing\<rparr>)]\<rparr>)"
  using demo_listed by (simp add: list_products_def request_def Let_def ebind_def)

lemma demo_create_order_sent:
  "length (sent (snd (create_order demo_runtime demo_world demo_creds BUY BTC_USDC (Fin 10)
     no_effects))) = 3"
  by (simp add: create_order_def demo_list_products get_product_def request_def Let_def
      demo_order_sizes no_effects_def)


lemma request_status_at_other:
  "n \<noteq> length (sent s) \<Longrightarrow> request (status_at n st) c m r b s = request demo_world c m r b s"
  by (simp add: request_def)

lemma request_status_at_401:
  "fst (request (status_at (length (sent s)) 401) c m r b s) = Inr JNull"
  by (simp add: request_def Let_def)

lemma list_products_status_at_other:
  "n \<noteq> length (sent s) \<Longrightarrow> list_products (status_at n st) c s = list_products demo_world c s"
  by (simp add: list_products_def request_status_at_other)

lemma get_product_status_at_other:
  "n \<noteq> length (sent s) \<Longrightarrow>
     get_product (status_at n st) c pair s = get_product demo_world c pair s"
  by (simp add: get_product_def request_status_at_other)

lemma list_products_status_at_401:
  "fst (list_products (status_at (length (sent s)) 401) c s) = Inl TypeError"
  by (simp add: list_products_def request_def Let_def ebind_def)

lemma demo_get_product:
  "get_product demo_world c BTC_USDC s =
     (Inr demo_product,
      s\<lparr>sent := sent s @ [(signed_request c (str_int (1730660000 + int (length (sent s)))) GET
                              ''products/BTC-USDC'' [],
                            Some \<lparr>status = 200, payload = Some demo_product\<rparr>)]\<rparr>)"
  by (simp add: get_product_def request_def Let_def)

lemma demo_body:
  \<open>json_dumps demo_runtime
     (order_body demo_runtime demo_world BUY BTC_USDC (Fin 49900) (fl (2004 / 10000000)))
   = ''{"client_order_id": "12345678-9abc-4ef0-9234-56789abcdef0", "side": "BUY", "product_id": "BTC-USDC", "order_configuration": {"limit_limit_gtc": {"post_only": false, "limit_price": "49900.0", "base_size": "0.0002004"}}}''\<close>
  by code_simp

lemma str_uuid_shape:
  "length (str_uuid u) = 36 \<and> str_uuid u ! 8 = CHR ''-'' \<and> str_uuid u ! 13 = CHR ''-''
     \<and> str_uuid u ! 18 = CHR ''-'' \<and> str_uuid u ! 23 = CHR ''-''"
  by (simp add: str_uuid_def Let_def nth_append)

subsection \<open>Sizing: lines 67 to 83\<close>

lemma price_factor_values:
  "price_factor BUY = fl (998 / 1000)" "price_factor SELL = fl (1002 / 1000)"
  by code_simp+

lemma example_price: "py_round (fmul (Fin 50000) (price_factor BUY)) 2 = Inr (Fin 49900)"
  by code_simp

lemma example_base_size:
  "ebind (fdiv (Fin 10) (Fin 49900)) (\<lambda>base_size. py_round base_size 8)
     = Inr (fl (2004 / 10000000))"
  by code_simp

lemma order_price_Inr:
  assumes "order_price rt side product = Inr p"
  shows "\<exists>inc d price. product_float rt product ''quote_increment'' = Inr inc
           \<and> get_currency_sigfigs rt inc = Inr d
           \<and> product_float rt product ''price'' = Inr price
           \<and> py_round (fmul price (price_factor side)) d = Inr p"
  using assms by (auto simp: order_price_def ebind_def split: sum.splits)

lemma order_base_size_Inr:
  assumes "order_base_size rt q p product = Inr b"
  shows "\<exists>inc d x. product_float rt product ''base_increment'' = Inr inc
           \<and> get_currency_sigfigs rt inc = Inr d
           \<and> fdiv q p = Inr x
           \<and> py_round x d = Inr b"
  using assms by (auto simp: order_base_size_def ebind_def split: sum.splits)

lemma order_sizes_Inr:
  assumes "order_sizes rt side q product = Inr (p, b)"
  shows "order_price rt side product = Inr p \<and> order_base_size rt q p product = Inr b
         \<and> (\<exists>lo hi blo bhi.
               product_float rt product ''quote_min_size'' = Inr lo \<and> fge q lo
             \<and> product_float rt product ''quote_max_size'' = Inr hi \<and> fle q hi
             \<and> product_float rt product ''base_min_size'' = Inr blo \<and> fge b blo
             \<and> product_float rt product ''base_max_size'' = Inr bhi \<and> fle b bhi)"
  using assms by (auto simp: order_sizes_def ebind_def split: sum.splits if_splits)

lemma flt_not_fge: "flt x y \<Longrightarrow> \<not> fge x y"
  by (auto simp: flt_def fge_def fle_def)

lemma flt_not_fle: "flt y x \<Longrightarrow> \<not> fle x y"
  by (auto simp: flt_def fle_def)

lemma feq_bounds: "feq x y \<Longrightarrow> fge x y \<and> fle x y"
  by (auto simp: feq_def fge_def fle_def)

lemma fle_trans: "fle x y \<Longrightarrow> fle y z \<Longrightarrow> fle x z"
  by (auto simp: fle_def)

lemma feq_fle_left: "feq x y \<Longrightarrow> fle y z \<Longrightarrow> fle x z"
  by (auto simp: feq_def fle_def)

lemma feq_fle_right: "feq x z \<Longrightarrow> fle y z \<Longrightarrow> fle y x"
  by (auto simp: feq_def fle_def)

lemma subscript_error: "subscript v k = Inl e \<Longrightarrow> e = TypeError \<or> e = KeyError"
  by (cases v) (auto split: option.splits)

lemma py_float_error:
  "py_float rt v = Inl e \<Longrightarrow> e = TypeError \<or> e = ValueError \<or> e = OverflowError"
  by (cases v) (auto split: option.splits pyfloat.splits)

lemma product_float_error:
  "product_float rt product k = Inl e \<Longrightarrow>
     e = TypeError \<or> e = KeyError \<or> e = ValueError \<or> e = OverflowError"
  using subscript_error [of product k e] py_float_error [of rt _ e]
  by (auto simp: product_float_def ebind_def split: sum.splits)

lemma math_floor_error: "math_floor x = Inl e \<Longrightarrow> e = OverflowError \<or> e = ValueError"
  by (cases x) auto

lemma get_currency_sigfigs_error:
  "get_currency_sigfigs rt x = Inl e \<Longrightarrow>
     e = AssertionError IncrementPositive \<or> e = OverflowError \<or> e = ValueError"
  using math_floor_error [of "math_log10 rt x" e]
  by (auto simp: get_currency_sigfigs_def ebind_def split: sum.splits if_splits)

lemma py_round_error: "py_round x n = Inl e \<Longrightarrow> e = OverflowError"
  by (cases x) (auto simp: double_round_def Let_def split: if_splits pyfloat.splits)

lemma fdiv_error: "fdiv x y = Inl e \<Longrightarrow> e = ZeroDivisionError"
  by (auto simp: fdiv_def split: if_splits)

lemma order_price_error:
  assumes "order_price rt side product = Inl e"
  shows "e \<noteq> AssertionError QuoteSizeMin \<and> e \<noteq> AssertionError QuoteSizeMax
       \<and> e \<noteq> AssertionError BaseSizeMin \<and> e \<noteq> AssertionError BaseSizeMax"
  using assms product_float_error [of rt product _ e] get_currency_sigfigs_error [of rt _ e]
    py_round_error [of _ _ e]
  by (fastforce simp: order_price_def ebind_def split: sum.splits)

lemma order_base_size_error:
  assumes "order_base_size rt q p product = Inl e"
  shows "e \<noteq> AssertionError QuoteSizeMin \<and> e \<noteq> AssertionError QuoteSizeMax
       \<and> e \<noteq> AssertionError BaseSizeMin \<and> e \<noteq> AssertionError BaseSizeMax"
  using assms product_float_error [of rt product _ e] get_currency_sigfigs_error [of rt _ e]
    py_round_error [of _ _ e] fdiv_error [of q p e]
  by (fastforce simp: order_base_size_def ebind_def split: sum.splits)

lemma order_sizes_quote_accepted:
  assumes "product_float rt product ''quote_min_size'' = Inr lo"
    and "product_float rt product ''quote_max_size'' = Inr hi"
    and "fge q lo" and "fle q hi"
  shows "order_sizes rt side q product \<noteq> Inl (AssertionError QuoteSizeMin)
       \<and> order_sizes rt side q product \<noteq> Inl (AssertionError QuoteSizeMax)"
proof (cases "order_price rt side product")
  case (Inl e)
  with assms order_price_error [OF Inl] show ?thesis
    by (auto simp: order_sizes_def ebind_def)
next
  case p: (Inr p)
  show ?thesis
  proof (cases "order_base_size rt q p product")
    case (Inl e)
    with assms p order_base_size_error [OF Inl] show ?thesis
      by (auto simp: order_sizes_def ebind_def)
  next
    case (Inr b)
    with assms p product_float_error [of rt product "''base_min_size''"]
      product_float_error [of rt product "''base_max_size''"]
    show ?thesis
      by (auto simp: order_sizes_def ebind_def split: sum.splits)
  qed
qed

lemma create_order_sizes_fail:
  assumes "list_products w c s = (Inr listed, s1)"
    and "JStr (Pair_value pair) \<in> set listed"
    and "get_product w c pair s1 = (Inr product, s2)"
    and "order_sizes rt side q product = Inl e"
  shows "create_order rt w c side pair q s = (Inl e, s2)
       \<and> map call_of (new_exchanges s s2) =
           [(''GET'', ''/api/v3/brokerage/products''),
            (''GET'', ''/api/v3/brokerage/products/'' @ Pair_value pair)]"
proof -
  have co: "create_order rt w c side pair q s = (Inl e, s2)"
    using assms by (simp add: create_order_def)
  from assms(1) obtain x1 where x1: "sent s1 = sent s @ [x1]"
    "call_of x1 = (''GET'', ''/api/v3/brokerage/products'')"
    by (cases rule: list_products_elim) auto
  from assms(3) obtain x2 where x2: "sent s2 = sent s1 @ [x2]"
    "call_of x2 = (''GET'', ''/api/v3/brokerage/products/'' @ Pair_value pair)"
    by (cases rule: get_product_elim) auto
  show ?thesis using co x1 x2 by (simp add: new_exchanges_def)
qed

lemma demo_product_floats:
  "product_float demo_runtime demo_product ''quote_min_size'' = Inr (Fin 1)"
  "product_float demo_runtime demo_product ''quote_max_size'' = Inr (Fin 10000000)"
  "product_float demo_runtime demo_product ''base_min_size'' = Inr (fl (1 / 100000000))"
  "product_float demo_runtime demo_product ''base_max_size'' = Inr (Fin 3400)"
  "product_float demo_runtime demo_product ''price'' = Inr (Fin 50000)"
  "product_float demo_runtime demo_product ''quote_increment'' = Inr (fl (1 / 100))"
  "product_float demo_runtime demo_product ''base_increment'' = Inr (fl (1 / 100000000))"
  by (simp_all add: product_float_def demo_product_def demo_runtime_def ebind_def)

lemma product_float_with:
  "product_float rt (demo_product_with k v) k' =
     (if k' = k then py_float rt (JStr v) else product_float rt demo_product k')"
  by (simp add: product_float_def demo_product_with_def demo_product_def ebind_def)

lemma order_price_with:
  "k \<noteq> ''quote_increment'' \<Longrightarrow> k \<noteq> ''price'' \<Longrightarrow>
     order_price rt side (demo_product_with k v) = order_price rt side demo_product"
  by (simp add: order_price_def product_float_with)

lemma order_base_size_with:
  "k \<noteq> ''base_increment'' \<Longrightarrow>
     order_base_size rt q p (demo_product_with k v) = order_base_size rt q p demo_product"
  by (simp add: order_base_size_def product_float_with)

lemma demo_sigfigs:
  "get_currency_sigfigs demo_runtime (fl (1 / 100)) = Inr 2"
  "get_currency_sigfigs demo_runtime (fl (1 / 100000000)) = Inr 8"
  by code_simp+

lemma demo_order_price: "order_price demo_runtime BUY demo_product = Inr (Fin 49900)"
  by (simp add: order_price_def demo_product_floats demo_sigfigs ebind_def example_price)

lemma demo_order_base_size:
  "order_base_size demo_runtime (Fin 10) (Fin 49900) demo_product = Inr (fl (2004 / 10000000))"
  using example_base_size
  by (simp add: order_base_size_def demo_product_floats demo_sigfigs ebind_def)

lemma demo_base_compare:
  "flt (fl (2004 / 10000000)) (Fin 1)"
  "fge (fl (2004 / 10000000)) (fl (1 / 100000000))"
  "flt (fl (1 / 100000000)) (fl (2004 / 10000000))"
  "fle (fl (2004 / 10000000)) (fl (2004 / 10000000))"
  "fle (fl (2004 / 10000000)) (Fin 3400)"
  by code_simp+

lemma demo_with_floats:
  "float_of_str demo_runtime ''1'' = Some (Fin 1)"
  "float_of_str demo_runtime ''0.00000001'' = Some (fl (1 / 100000000))"
  "float_of_str demo_runtime ''0.0002004'' = Some (fl (2004 / 10000000))"
  by (simp_all add: demo_runtime_def)

subsection \<open>The claims\<close>

text \<open>
  C5. A pair that is not in the listing that \<open>list_products\<close> returns makes \<open>create_order\<close>
  fail at the assertion of line 63 (the specification's \<open>UnsupportedPairError\<close>), whatever
  the side, the quote size and the float runtime are: nothing has been computed from them.
  The effects are those of \<open>list_products\<close> alone, a single GET of the product list: the
  product is not fetched and no order is sent.
\<close>

theorem unlisted_pair_rejected_first:
  assumes "list_products w c s = (Inr listed, s1)"
    and "JStr (Pair_value pair) \<notin> set listed"
  shows "create_order rt w c side pair q s = (Inl (AssertionError PairListed), s1)
           \<and> map call_of (new_exchanges s s1) = [(''GET'', ''/api/v3/brokerage/products'')]"
proof -
  have "create_order rt w c side pair q s = (Inl (AssertionError PairListed), s1)"
    using assms by (simp add: create_order_def)
  moreover from assms(1)
  have "map call_of (new_exchanges s s1) = [(''GET'', ''/api/v3/brokerage/products'')]"
    by (cases rule: list_products_elim) (simp_all add: new_exchanges_def)
  ultimately show ?thesis by simp
qed

theorem unlisted_pair_rejected_first_witness:
  "fst (list_products demo_world demo_creds no_effects) = Inr [JStr ''BTC-USD'', JStr ''BTC-USDC'']
   \<and> JStr (Pair_value ETH_USD) \<notin> set [JStr ''BTC-USD'', JStr ''BTC-USDC'']
   \<and> fst (create_order demo_runtime demo_world demo_creds SELL ETH_USD (Fin 10) no_effects)
       = Inl (AssertionError PairListed)
   \<and> map call_of (sent (snd (create_order demo_runtime demo_world demo_creds SELL ETH_USD
         (Fin 10) no_effects))) = [(''GET'', ''/api/v3/brokerage/products'')]"
proof -
  have n: "JStr (Pair_value ETH_USD) \<notin> set [JStr ''BTC-USD'', JStr ''BTC-USDC'']" by simp
  show ?thesis
    using unlisted_pair_rejected_first [OF demo_list_products n, where rt = demo_runtime
        and c = demo_creds and s = no_effects and side = SELL and q = "Fin 10"] n
    by (simp add: demo_list_products new_exchanges_def no_effects_def)
qed



text \<open>
  C7, as the specification states it: every call of \<open>create_order\<close> issues at most two
  network calls. On the concrete exchange, which answers every request with status 200, a
  call sends three.
\<close>

theorem create_order_two_calls_counterexample:
  "\<not> length (new_exchanges no_effects
        (snd (create_order demo_runtime demo_world demo_creds BUY BTC_USDC (Fin 10) no_effects)))
      \<le> 2"
  using demo_create_order_sent by (simp add: new_exchanges_def no_effects_def)

text \<open>
  C7, amended. A call of \<open>create_order\<close> adds at most three exchanges, a prefix of: GET of
  the product list, GET of the product, POST of the order. Its only other effect is one
  printed line for each answer with status 401.
\<close>

theorem create_order_three_calls:
  "\<exists>xs. sent (snd (create_order rt w c side pair q s)) = sent s @ xs
        \<and> length xs \<le> 3
        \<and> map call_of xs = take (length xs) (create_order_calls pair)
        \<and> printed (snd (create_order rt w c side pair q s)) = printed s @ notices xs"
proof -
  obtain res s' where co: "create_order rt w c side pair q s = (res, s')"
    by (cases "create_order rt w c side pair q s")
  from create_order_trace [OF co] show ?thesis unfolding co by auto
qed

text \<open>
  C10. In a call of \<open>create_order\<close>, an answer with status 401 to the GET of the product
  list or of the product makes the call raise \<open>TypeError\<close> (the \<open>None\<close> that \<open>_request\<close>
  returned is subscripted); only an answer with status 401 to the POST of the order makes
  the call return \<open>None\<close>.
\<close>

theorem unauthorized_lookup_raises_TypeError:
  "\<forall>x \<in> set (new_exchanges s (snd (create_order rt w c side pair q s))). unauthorized x \<longrightarrow>
     (call_of x \<in> {(''GET'', ''/api/v3/brokerage/products''),
                     (''GET'', ''/api/v3/brokerage/products/'' @ Pair_value pair)}
        \<and> fst (create_order rt w c side pair q s) = Inl TypeError)
     \<or> (call_of x = (''POST'', ''/api/v3/brokerage/orders'')
        \<and> fst (create_order rt w c side pair q s) = Inr JNull)"
proof -
  obtain res s' where co: "create_order rt w c side pair q s = (res, s')"
    by (cases "create_order rt w c side pair q s")
  from create_order_trace [OF co] obtain xs where xs: "sent s' = sent s @ xs"
    "map call_of xs = take (length xs) (create_order_calls pair)"
    "\<forall>x \<in> set xs. unauthorized x \<longrightarrow>
       (if req_method (fst x) = ''GET'' then res = Inl TypeError else res = Inr JNull)"
    by blast
  have new: "new_exchanges s s' = xs" using xs(1) by (simp add: new_exchanges_def)
  have calls: "call_of x \<in> set (create_order_calls pair)" if "x \<in> set xs" for x
  proof -
    from that have "call_of x \<in> set (map call_of xs)" by simp
    then show ?thesis unfolding xs(2) by (rule in_set_takeD)
  qed
  have "(call_of x \<in> {(''GET'', ''/api/v3/brokerage/products''),
                     (''GET'', ''/api/v3/brokerage/products/'' @ Pair_value pair)}
        \<and> res = Inl TypeError)
     \<or> (call_of x = (''POST'', ''/api/v3/brokerage/orders'') \<and> res = Inr JNull)"
    if x: "x \<in> set xs" "unauthorized x" for x
    using calls [OF x(1)] xs(3) x by (auto simp: create_order_calls_def call_of_def)
  then show ?thesis by (simp add: co new)
qed

theorem unauthorized_lookup_raises_TypeError_witness:
  "fst (create_order demo_runtime (status_at 0 401) demo_creds BUY BTC_USDC (Fin 10) no_effects)
     = Inl TypeError
   \<and> fst (create_order demo_runtime (status_at 1 401) demo_creds BUY BTC_USDC (Fin 10) no_effects)
     = Inl TypeError
   \<and> fst (create_order demo_runtime (status_at 2 401) demo_creds BUY BTC_USDC (Fin 10) no_effects)
     = Inr JNull
   \<and> map unauthorized (new_exchanges no_effects (snd (create_order demo_runtime (status_at 2 401)
        demo_creds BUY BTC_USDC (Fin 10) no_effects))) = [False, False, True]"
proof -
  have at2: "map unauthorized (new_exchanges no_effects (snd (create_order demo_runtime
      (status_at 2 401) demo_creds BUY BTC_USDC (Fin 10) no_effects))) = [False, False, True]"
    by (simp add: create_order_def list_products_status_at_other get_product_status_at_other
        demo_list_products demo_get_product demo_order_sizes request_def Let_def
        new_exchanges_def unauthorized_def no_effects_def)
  define x where "x = last (new_exchanges no_effects (snd (create_order demo_runtime
      (status_at 2 401) demo_creds BUY BTC_USDC (Fin 10) no_effects)))"
  have x: "x \<in> set (new_exchanges no_effects (snd (create_order demo_runtime
      (status_at 2 401) demo_creds BUY BTC_USDC (Fin 10) no_effects)))" "unauthorized x"
    "call_of x = (''POST'', ''/api/v3/brokerage/orders'')"
    by (simp_all add: x_def create_order_def list_products_status_at_other
        get_product_status_at_other demo_list_products demo_get_product demo_order_sizes
        request_def Let_def new_exchanges_def unauthorized_def no_effects_def call_of_def
        BASE_ENDPOINT_def)
  with at2 unauthorized_lookup_raises_TypeError [of no_effects demo_runtime "status_at 2 401"
      demo_creds BUY BTC_USDC "Fin 10"]
  have "fst (create_order demo_runtime (status_at 2 401) demo_creds BUY BTC_USDC (Fin 10)
      no_effects) = Inr JNull"
    by auto
  moreover have "fst (list_products (status_at 0 401) demo_creds no_effects) = Inl TypeError"
    using list_products_status_at_401 [of no_effects demo_creds] by (simp add: no_effects_def)
  then have "fst (create_order demo_runtime (status_at 0 401) demo_creds BUY BTC_USDC
      (Fin 10) no_effects) = Inl TypeError"
    by (cases "list_products (status_at 0 401) demo_creds no_effects")
      (simp add: create_order_def)
  moreover have "fst (create_order demo_runtime (status_at 1 401) demo_creds BUY BTC_USDC
      (Fin 10) no_effects) = Inl TypeError"
    by (simp add: create_order_def list_products_status_at_other demo_list_products
        get_product_def request_def Let_def order_sizes_None no_effects_def)
  ultimately show ?thesis using at2 by simp
qed

text \<open>
  C8. The request that \<open>_request\<close> sends carries, in \<open>CB-ACCESS-SIGN\<close>, the hexadecimal
  HMAC-SHA256, keyed by the secret, of timestamp, method, full path and body concatenated,
  and in \<open>CB-ACCESS-TIMESTAMP\<close> that same timestamp string: the clock read once for this
  request, truncated to whole seconds. Every request of a call of \<open>create_order\<close> is
  signed so.
\<close>

theorem request_signature:
  assumes "py_int (time_time w (length (sent s))) = Inr t"
  shows "(\<exists>answer. new_exchanges s (snd (request w c m r b s))
             = [(signed_request c (str_int t) m r b, answer)])
         \<and> header (signed_request c (str_int t) m r b) ''CB-ACCESS-TIMESTAMP'' = Some (str_int t)
         \<and> header (signed_request c (str_int t) m r b) ''CB-ACCESS-SIGN''
             = Some (hexdigest (hmac_sha256 (utf8 (secret c))
                  (utf8 (str_int t @ HTTPMethod_value m @ (BASE_ENDPOINT @ r) @ b))))
         \<and> req_method (signed_request c (str_int t) m r b) = HTTPMethod_value m
         \<and> req_url (signed_request c (str_int t) m r b) = BASE_ENDPOINT @ r
         \<and> req_body (signed_request c (str_int t) m r b) = b
         \<and> (\<forall>x \<in> set (new_exchanges s0 (snd (create_order rt w c side pair q s0))).
               well_signed c (fst x))"
proof -
  obtain res' s' where co: "create_order rt w c side pair q s0 = (res', s')"
    by (cases "create_order rt w c side pair q s0")
  from create_order_trace [OF co]
  have "\<forall>x \<in> set (new_exchanges s0 s'). well_signed c (fst x)"
    by (auto simp: new_exchanges_def)
  then show ?thesis using assms
    by (auto simp: request_def Let_def co new_exchanges_def split: option.splits)
qed

theorem request_signature_witness:
  "py_int (time_time demo_world (length (sent no_effects))) = Inr 1730660000
   \<and> map fst (new_exchanges no_effects
        (snd (request demo_world demo_creds GET ''products'' [] no_effects)))
      = [signed_request demo_creds ''1730660000'' GET ''products'' []]
   \<and> header (signed_request demo_creds ''1730660000'' GET ''products'' []) ''CB-ACCESS-TIMESTAMP''
      = Some ''1730660000''
   \<and> header (signed_request demo_creds ''1730660000'' GET ''products'' []) ''CB-ACCESS-SIGN''
      = Some (hexdigest (hmac_sha256 (utf8 ''demo-secret'')
                (utf8 ''1730660000GET/api/v3/brokerage/products'')))"
proof -
  have t: "py_int (time_time demo_world (length (sent no_effects))) = Inr 1730660000"
    by (simp add: no_effects_def)
  have d: "str_int 1730660000 = ''1730660000''" by code_simp
  from request_signature [OF t, where c = demo_creds and m = GET and r = "''products''" and b = "[]"
      and ?s0.0 = no_effects and rt = demo_runtime and side = BUY and pair = BTC_USDC
      and q = "Fin 10"]
  obtain answer where "new_exchanges no_effects
        (snd (request demo_world demo_creds GET ''products'' [] no_effects))
      = [(signed_request demo_creds (str_int 1730660000) GET ''products'' [], answer)]"
    by blast
  then show ?thesis
    using t by (simp add: d demo_creds_def BASE_ENDPOINT_def)
qed

text \<open>
  C9. A POST sent by \<open>create_order\<close> goes to the orders resource and its body is the JSON
  text of the dictionary of lines 87 to 98: the string of a version-4 UUID made from the
  random bytes of this call, the side, the pair, and under \<open>order_configuration\<close> and
  \<open>limit_limit_gtc\<close> the flag \<open>post_only\<close> false with the strings of the adjusted price and of
  the rounded base size that lines 67 to 83 computed.
\<close>

theorem order_body_shape:
  "\<forall>x \<in> set (new_exchanges s (snd (create_order rt w c side pair q s))).
     req_method (fst x) = ''POST'' \<longrightarrow>
       req_url (fst x) = ''/api/v3/brokerage/orders''
       \<and> (\<exists>product p b. order_sizes rt side q product = Inr (p, b)
            \<and> req_body (fst x) = json_dumps rt
                (JDict [(''client_order_id'', JStr (str_uuid (uuid4 (os_urandom w)))),
                        (''side'', JStr (Side_value side)),
                        (''product_id'', JStr (Pair_value pair)),
                        (''order_configuration'',
                           JDict [(''limit_limit_gtc'',
                              JDict [(''post_only'', JBool False),
                                     (''limit_price'', JStr (float_repr rt p)),
                                     (''base_size'', JStr (float_repr rt b))])])]))"
proof -
  obtain res s' where co: "create_order rt w c side pair q s = (res, s')"
    by (cases "create_order rt w c side pair q s")
  from create_order_trace [OF co] obtain xs where xs: "sent s' = sent s @ xs"
    "map call_of xs = take (length xs) (create_order_calls pair)"
    "\<forall>x \<in> set xs. req_method (fst x) = ''POST'' \<longrightarrow>
                 (\<exists>product p b. order_sizes rt side q product = Inr (p, b)
                    \<and> req_body (fst x) = json_dumps rt (order_body rt w side pair p b))"
    by blast
  have new: "new_exchanges s s' = xs" using xs(1) by (simp add: new_exchanges_def)
  have calls: "call_of x \<in> set (create_order_calls pair)" if "x \<in> set xs" for x
  proof -
    from that have "call_of x \<in> set (map call_of xs)" by simp
    then show ?thesis unfolding xs(2) by (rule in_set_takeD)
  qed
  have "req_url (fst x) = ''/api/v3/brokerage/orders''"
    if "x \<in> set xs" "req_method (fst x) = ''POST''" for x
    using calls [OF that(1)] that(2) by (auto simp: create_order_calls_def call_of_def)
  with xs(3) show ?thesis
    by (simp add: co new order_body_def generate_client_order_id_def)
qed


theorem order_body_shape_witness:
  \<open>req_method (fst (last (new_exchanges no_effects (snd (create_order demo_runtime demo_world
       demo_creds BUY BTC_USDC (Fin 10) no_effects))))) = ''POST''
   \<and> req_url (fst (last (new_exchanges no_effects (snd (create_order demo_runtime demo_world
       demo_creds BUY BTC_USDC (Fin 10) no_effects))))) = ''/api/v3/brokerage/orders''
   \<and> req_body (fst (last (new_exchanges no_effects (snd (create_order demo_runtime demo_world
       demo_creds BUY BTC_USDC (Fin 10) no_effects)))))
     = ''{"client_order_id": "12345678-9abc-4ef0-9234-56789abcdef0", "side": "BUY", "product_id": "BTC-USDC", "order_configuration": {"limit_limit_gtc": {"post_only": false, "limit_price": "49900.0", "base_size": "0.0002004"}}}''\<close>
proof -
  define x where "x = last (new_exchanges no_effects (snd (create_order demo_runtime demo_world
       demo_creds BUY BTC_USDC (Fin 10) no_effects)))"
  have x: "x \<in> set (new_exchanges no_effects (snd (create_order demo_runtime demo_world
       demo_creds BUY BTC_USDC (Fin 10) no_effects)))"
    "req_method (fst x) = ''POST''"
    "req_body (fst x) = json_dumps demo_runtime
       (order_body demo_runtime demo_world BUY BTC_USDC (Fin 49900) (fl (2004 / 10000000)))"
    by (simp_all add: x_def create_order_def demo_list_products demo_get_product
        demo_order_sizes request_def Let_def new_exchanges_def no_effects_def)
  from x(1,2) order_body_shape [of no_effects demo_runtime demo_world demo_creds BUY BTC_USDC "Fin 10"]
  have url: "req_url (fst x) = ''/api/v3/brokerage/orders''" by blast
  note body = x(3) [unfolded demo_body]
  show ?thesis unfolding x_def [symmetric] using x(2) url body by blast
qed

text \<open>
  C1. The factor of line 74 is the float 0.998 for BUY and the float 1.002 for SELL. Whenever
  lines 67 to 83 succeed, the adjusted price is \<open>round(price * factor, digits)\<close>: the product
  is formed first, then rounded, with \<open>digits\<close> the result of \<open>_get_currency_sigfigs\<close> on
  the quote increment. For the price 50000, BUY and 2 digits the adjusted price is 49900.0.
\<close>

theorem adjusted_price_offset_then_round:
  "price_factor BUY = fl (998 / 1000) \<and> price_factor SELL = fl (1002 / 1000)
   \<and> (order_sizes rt side q product = Inr (p, b) \<longrightarrow>
        (\<exists>inc d price. product_float rt product ''quote_increment'' = Inr inc
           \<and> get_currency_sigfigs rt inc = Inr d
           \<and> product_float rt product ''price'' = Inr price
           \<and> py_round (fmul price (price_factor side)) d = Inr p))
   \<and> py_round (fmul (Fin 50000) (price_factor BUY)) 2 = Inr (Fin 49900)"
  using price_factor_values example_price order_sizes_Inr [of rt side q product p b]
    order_price_Inr [of rt side product p]
  by blast

theorem adjusted_price_offset_then_round_witness:
  "order_sizes demo_runtime BUY (Fin 10) demo_product = Inr (Fin 49900, fl (2004 / 10000000))
   \<and> product_float demo_runtime demo_product ''quote_increment'' = Inr (fl (1 / 100))
   \<and> get_currency_sigfigs demo_runtime (fl (1 / 100)) = Inr 2
   \<and> product_float demo_runtime demo_product ''price'' = Inr (Fin 50000)
   \<and> py_round (fmul (Fin 50000) (price_factor BUY)) 2 = Inr (Fin 49900)"
proof -
  from adjusted_price_offset_then_round [of demo_runtime BUY "Fin 10" demo_product "Fin 49900" "fl (2004 / 10000000)"]
    demo_order_sizes
  obtain inc d price where *: "product_float demo_runtime demo_product ''quote_increment'' = Inr inc"
    "get_currency_sigfigs demo_runtime inc = Inr d"
    "product_float demo_runtime demo_product ''price'' = Inr price"
    "py_round (fmul price (price_factor BUY)) d = Inr (Fin 49900)"
    by blast
  from *(1) demo_product_floats(6) have inc: "inc = fl (1 / 100)" by simp
  from *(3) demo_product_floats(5) have price: "price = Fin 50000" by simp
  from *(2) demo_sigfigs(1) have d: "d = 2" unfolding inc by simp
  from * show ?thesis unfolding inc price d using demo_order_sizes by blast
qed

text \<open>
  C3. Whenever lines 67 to 83 succeed, the base size is \<open>round(quote_size / price_adjusted,
  digits)\<close> with \<open>digits\<close> the result of \<open>_get_currency_sigfigs\<close> on the base increment. For
  the quote size 10.0, the adjusted price 49900.0 and 8 digits it is the float 0.0002004,
  which the literal 0.00020040 denotes as well.
\<close>

theorem base_size_quotient_rounded:
  "(order_sizes rt side q product = Inr (p, b) \<longrightarrow>
      (\<exists>inc d x. product_float rt product ''base_increment'' = Inr inc
         \<and> get_currency_sigfigs rt inc = Inr d
         \<and> fdiv q p = Inr x
         \<and> py_round x d = Inr b))
   \<and> ebind (fdiv (Fin 10) (Fin 49900)) (\<lambda>base_size. py_round base_size 8)
       = Inr (fl (20040 / 100000000))"
proof -
  have "(20040 / 100000000 :: rat) = 2004 / 10000000" by simp
  then show ?thesis
    using example_base_size order_sizes_Inr [of rt side q product p b]
      order_base_size_Inr [of rt q p product b]
    by (simp only:) blast
qed


theorem base_size_quotient_rounded_witness:
  "order_sizes demo_runtime BUY (Fin 10) demo_product = Inr (Fin 49900, fl (2004 / 10000000))
   \<and> product_float demo_runtime demo_product ''base_increment'' = Inr (fl (1 / 100000000))
   \<and> get_currency_sigfigs demo_runtime (fl (1 / 100000000)) = Inr 8
   \<and> ebind (fdiv (Fin 10) (Fin 49900)) (\<lambda>base_size. py_round base_size 8)
       = Inr (fl (2004 / 10000000))"
proof -
  from base_size_quotient_rounded [of demo_runtime BUY "Fin 10" demo_product "Fin 49900" "fl (2004 / 10000000)"]
    demo_order_sizes
  obtain inc d x where *: "product_float demo_runtime demo_product ''base_increment'' = Inr inc"
    "get_currency_sigfigs demo_runtime inc = Inr d"
    "fdiv (Fin 10) (Fin 49900) = Inr x"
    "py_round x d = Inr (fl (2004 / 10000000))"
    by blast
  from *(1) demo_product_floats(7) have inc: "inc = fl (1 / 100000000)" by simp
  from *(2) demo_sigfigs(2) have d: "d = 8" unfolding inc by simp
  from *(3,4) have "ebind (fdiv (Fin 10) (Fin 49900)) (\<lambda>base_size. py_round base_size 8)
       = Inr (fl (2004 / 10000000))"
    unfolding d by (simp add: ebind_def)
  with * show ?thesis unfolding inc d using demo_order_sizes by blast
qed


text \<open>
  C4. With the quote bounds \<open>lo\<close> and \<open>hi\<close> of the product: a quote size below \<open>lo\<close> fails
  the assertion of line 67 and one above \<open>hi\<close> that of line 68; a quote size equal to \<open>lo\<close>
  or to \<open>hi\<close> fails neither. With the computed base size \<open>b\<close> and the base bounds: \<open>b\<close>
  below the minimum fails the assertion of line 82, \<open>b\<close> above the maximum that of line 83,
  and \<open>b\<close> within the bounds, ends included, is accepted. These assertion errors are the
  specification's \<open>SizeOutOfBoundsError\<close>. Whenever lines 67 to 83 fail, \<open>create_order\<close>
  fails the same way having sent the two GETs only: no order is submitted.
\<close>

theorem size_bounds_inclusive:
  assumes "product_float rt product ''quote_min_size'' = Inr lo"
    and "product_float rt product ''quote_max_size'' = Inr hi"
  shows "(flt q lo \<longrightarrow> order_sizes rt side q product = Inl (AssertionError QuoteSizeMin))
   \<and> (fge q lo \<and> flt hi q \<longrightarrow>
        order_sizes rt side q product = Inl (AssertionError QuoteSizeMax))
   \<and> ((feq q lo \<or> feq q hi) \<and> fle lo hi \<longrightarrow>
        order_sizes rt side q product \<noteq> Inl (AssertionError QuoteSizeMin)
      \<and> order_sizes rt side q product \<noteq> Inl (AssertionError QuoteSizeMax))
   \<and> (fge q lo \<and> fle q hi \<and> order_price rt side product = Inr p
        \<and> order_base_size rt q p product = Inr b
        \<and> product_float rt product ''base_min_size'' = Inr blo
        \<and> product_float rt product ''base_max_size'' = Inr bhi \<longrightarrow>
          (flt b blo \<longrightarrow> order_sizes rt side q product = Inl (AssertionError BaseSizeMin))
        \<and> (fge b blo \<and> flt bhi b \<longrightarrow>
             order_sizes rt side q product = Inl (AssertionError BaseSizeMax))
        \<and> (fge b blo \<and> fle b bhi \<longrightarrow> order_sizes rt side q product = Inr (p, b)))
   \<and> (list_products w c s = (Inr listed, s1) \<and> JStr (Pair_value pair) \<in> set listed
        \<and> get_product w c pair s1 = (Inr product, s2)
        \<and> order_sizes rt side q product = Inl e \<longrightarrow>
          create_order rt w c side pair q s = (Inl e, s2)
        \<and> map call_of (new_exchanges s s2) =
            [(''GET'', ''/api/v3/brokerage/products''),
             (''GET'', ''/api/v3/brokerage/products/'' @ Pair_value pair)])"
proof (intro conjI impI)
  assume "flt q lo"
  then show "order_sizes rt side q product = Inl (AssertionError QuoteSizeMin)"
    using assms flt_not_fge by (simp add: order_sizes_def ebind_def)
next
  assume "fge q lo \<and> flt hi q"
  then show "order_sizes rt side q product = Inl (AssertionError QuoteSizeMax)"
    using assms flt_not_fle by (simp add: order_sizes_def ebind_def)
next
  assume a: "(feq q lo \<or> feq q hi) \<and> fle lo hi"
  then have "fge q lo \<and> fle q hi"
    using feq_bounds feq_fle_left feq_fle_right by (auto simp: fge_def)
  then show "order_sizes rt side q product \<noteq> Inl (AssertionError QuoteSizeMin)"
    "order_sizes rt side q product \<noteq> Inl (AssertionError QuoteSizeMax)"
    using order_sizes_quote_accepted [OF assms] by simp_all
next
  assume a: "fge q lo \<and> fle q hi \<and> order_price rt side product = Inr p
        \<and> order_base_size rt q p product = Inr b
        \<and> product_float rt product ''base_min_size'' = Inr blo
        \<and> product_float rt product ''base_max_size'' = Inr bhi"
  show "flt b blo \<Longrightarrow> order_sizes rt side q product = Inl (AssertionError BaseSizeMin)"
    using a assms flt_not_fge by (simp add: order_sizes_def ebind_def)
  show "fge b blo \<and> flt bhi b \<Longrightarrow> order_sizes rt side q product = Inl (AssertionError BaseSizeMax)"
    using a assms flt_not_fle by (simp add: order_sizes_def ebind_def)
  show "fge b blo \<and> fle b bhi \<Longrightarrow> order_sizes rt side q product = Inr (p, b)"
    using a assms by (simp add: order_sizes_def ebind_def)
next
  assume a: "list_products w c s = (Inr listed, s1) \<and> JStr (Pair_value pair) \<in> set listed
        \<and> get_product w c pair s1 = (Inr product, s2)
        \<and> order_sizes rt side q product = Inl e"
  then show "create_order rt w c side pair q s = (Inl e, s2)"
    "map call_of (new_exchanges s s2) =
            [(''GET'', ''/api/v3/brokerage/products''),
             (''GET'', ''/api/v3/brokerage/products/'' @ Pair_value pair)]"
    using create_order_sizes_fail [of w c s listed s1 pair product s2 rt side q e] by simp_all
qed


theorem size_bounds_inclusive_witness:
  "product_float demo_runtime demo_product ''quote_min_size'' = Inr (Fin 1)
   \<and> product_float demo_runtime demo_product ''quote_max_size'' = Inr (Fin 10000000)
   \<and> order_sizes demo_runtime BUY (Fin (1 / 2)) demo_product = Inl (AssertionError QuoteSizeMin)
   \<and> order_sizes demo_runtime BUY (Fin 20000000) demo_product
       = Inl (AssertionError QuoteSizeMax)
   \<and> order_sizes demo_runtime BUY (Fin 1) demo_product \<noteq> Inl (AssertionError QuoteSizeMin)
   \<and> order_sizes demo_runtime BUY (Fin 10000000) demo_product
       \<noteq> Inl (AssertionError QuoteSizeMax)
   \<and> order_sizes demo_runtime BUY (Fin 10) (demo_product_with ''base_min_size'' ''1'')
       = Inl (AssertionError BaseSizeMin)
   \<and> order_sizes demo_runtime BUY (Fin 10) (demo_product_with ''base_max_size'' ''0.00000001'')
       = Inl (AssertionError BaseSizeMax)
   \<and> order_sizes demo_runtime BUY (Fin 10) (demo_product_with ''base_max_size'' ''0.0002004'')
       = Inr (Fin 49900, fl (2004 / 10000000))
   \<and> fst (create_order demo_runtime demo_world demo_creds BUY BTC_USDC (Fin (1 / 2)) no_effects)
       = Inl (AssertionError QuoteSizeMin)
   \<and> map call_of (sent (snd (create_order demo_runtime demo_world demo_creds BUY BTC_USDC
        (Fin (1 / 2)) no_effects)))
       = [(''GET'', ''/api/v3/brokerage/products''),
          (''GET'', ''/api/v3/brokerage/products/BTC-USDC'')]"
proof -
  note lo = demo_product_floats(1) and hi = demo_product_floats(2)
  have q_min: "order_sizes demo_runtime BUY (Fin (1 / 2)) demo_product
      = Inl (AssertionError QuoteSizeMin)"
    using size_bounds_inclusive [OF lo hi, where q = "Fin (1 / 2)" and side = BUY]
    by (simp add: flt_def)
  have q_max: "order_sizes demo_runtime BUY (Fin 20000000) demo_product
      = Inl (AssertionError QuoteSizeMax)"
    using size_bounds_inclusive [OF lo hi, where q = "Fin 20000000" and side = BUY]
    by (simp add: flt_def fge_def fle_def)
  have eq_min: "order_sizes demo_runtime BUY (Fin 1) demo_product
      \<noteq> Inl (AssertionError QuoteSizeMin)"
    using size_bounds_inclusive [OF lo hi, where q = "Fin 1" and side = BUY]
    by (simp add: feq_def fle_def)
  have eq_max: "order_sizes demo_runtime BUY (Fin 10000000) demo_product
      \<noteq> Inl (AssertionError QuoteSizeMax)"
    using size_bounds_inclusive [OF lo hi, where q = "Fin 10000000" and side = BUY]
    by (simp add: feq_def fle_def)
  have q10: "fge (Fin 10) (Fin 1)" "fle (Fin 10) (Fin 10000000)"
    by (simp_all add: fge_def fle_def)
  have b_min: "order_sizes demo_runtime BUY (Fin 10) (demo_product_with ''base_min_size'' ''1'')
      = Inl (AssertionError BaseSizeMin)"
    using size_bounds_inclusive [where rt = demo_runtime and product = "demo_product_with ''base_min_size'' ''1''"
        and lo = "Fin 1" and hi = "Fin 10000000" and q = "Fin 10" and side = BUY
        and p = "Fin 49900" and b = "fl (2004 / 10000000)" and blo = "Fin 1" and bhi = "Fin 3400"]
      q10 demo_base_compare(1)
    by (simp add: product_float_with demo_product_floats demo_with_floats order_price_with
        order_base_size_with demo_order_price demo_order_base_size)
  have b_max: "order_sizes demo_runtime BUY (Fin 10)
      (demo_product_with ''base_max_size'' ''0.00000001'') = Inl (AssertionError BaseSizeMax)"
    using size_bounds_inclusive [where rt = demo_runtime
        and product = "demo_product_with ''base_max_size'' ''0.00000001''"
        and lo = "Fin 1" and hi = "Fin 10000000" and q = "Fin 10" and side = BUY
        and p = "Fin 49900" and b = "fl (2004 / 10000000)" and blo = "fl (1 / 100000000)"
        and bhi = "fl (1 / 100000000)"]
      q10 demo_base_compare(2,3)
    by (simp add: product_float_with demo_product_floats demo_with_floats order_price_with
        order_base_size_with demo_order_price demo_order_base_size)
  have b_eq: "order_sizes demo_runtime BUY (Fin 10)
      (demo_product_with ''base_max_size'' ''0.0002004'') = Inr (Fin 49900, fl (2004 / 10000000))"
    using size_bounds_inclusive [where rt = demo_runtime
        and product = "demo_product_with ''base_max_size'' ''0.0002004''"
        and lo = "Fin 1" and hi = "Fin 10000000" and q = "Fin 10" and side = BUY
        and p = "Fin 49900" and b = "fl (2004 / 10000000)" and blo = "fl (1 / 100000000)"
        and bhi = "fl (2004 / 10000000)"]
      q10 demo_base_compare(2,4)
    by (simp add: product_float_with demo_product_floats demo_with_floats order_price_with
        order_base_size_with demo_order_price demo_order_base_size)
  have co: "create_order demo_runtime demo_world demo_creds BUY BTC_USDC (Fin (1 / 2)) no_effects
      = (Inl (AssertionError QuoteSizeMin),
         snd (get_product demo_world demo_creds BTC_USDC
                (snd (list_products demo_world demo_creds no_effects))))
    \<and> map call_of (new_exchanges no_effects (snd (get_product demo_world demo_creds BTC_USDC
                (snd (list_products demo_world demo_creds no_effects)))))
       = [(''GET'', ''/api/v3/brokerage/products''),
          (''GET'', ''/api/v3/brokerage/products/'' @ Pair_value BTC_USDC)]"
    using size_bounds_inclusive [OF lo hi, where q = "Fin (1 / 2)" and side = BUY and w = demo_world
        and c = demo_creds and s = no_effects and pair = BTC_USDC
        and listed = "[JStr ''BTC-USD'', JStr ''BTC-USDC'']"
        and ?s1.0 = "snd (list_products demo_world demo_creds no_effects)"
        and ?s2.0 = "snd (get_product demo_world demo_creds BTC_USDC
                (snd (list_products demo_world demo_creds no_effects)))"
        and e = "AssertionError QuoteSizeMin"] q_min
    by (simp add: demo_list_products demo_get_product)
  show ?thesis
    using lo hi q_min q_max eq_min eq_max b_min b_max b_eq co
    by (simp add: new_exchanges_def no_effects_def)
qed

end
